theory Spec2Isabelle
  imports Complex_Main "HOL-Library.Word"
begin

section \<open>LazyMinter: the voucher signer of lazy-minting/lib/LazyMinter.js\<close>

text \<open>
  The class \<open>LazyMinter\<close> builds an EIP-712 envelope around a voucher, has a library
  function hash it, and has an injected signer sign the hash. The signer object
  (\<open>getChainId\<close>, \<open>signMessage\<close>) and the library function
  \<open>TypedDataUtils.encodeDigest\<close> are not code of the class: the signer is a record of two
  operations over an outside world \<open>'w\<close> that each may fail with an error \<open>'e\<close>, and
  \<open>encodeDigest\<close> is a parameter of \<open>createVoucher\<close>, a function that may throw.
  The \<open>await\<close>s of the source run in sequence, so the model is state passing: every
  method takes the instance and the world and returns them updated, together with the
  list of calls it made to the signer and to the library, in order.
\<close>

subsection \<open>Data\<close>

type_synonym bytes = "8 word list"

text \<open>\<open>ethers.BigNumber | number\<close>: the code never computes with these values.\<close>

datatype numeric = Number rat | BigNumber int

record NFTVoucher =
  tokenId :: numeric
  uri :: string
  minPrice :: numeric

record SigningDomain =
  name :: string
  version :: string
  verifyingContract :: string
  chainId :: int

record TypedField =
  field_name :: string
  field_type :: string

type_synonym TypeSchema = "(string \<times> TypedField list) list"

record TypedData =
  domain :: SigningDomain
  types :: TypeSchema
  primaryType :: string
  message :: NFTVoucher

record CreateVoucherResult =
  voucher :: NFTVoucher
  signature :: bytes
  digest :: bytes

record ('w, 'e) Signer =
  getChainId :: "'w \<Rightarrow> ('e + int) \<times> 'w"
  signMessage :: "bytes \<Rightarrow> 'w \<Rightarrow> ('e + bytes) \<times> 'w"

text \<open>
  The instance: \<open>this.contractAddress\<close>, \<open>this.signer\<close>, \<open>this.types\<close>
  (\<open>minter_types\<close> here, the envelope having a field \<open>types\<close> of its own) and
  \<open>this._domain\<close> (\<open>priv_domain\<close>), which is undefined (\<open>None\<close>) until
  \<open>_signingDomain\<close> assigns it. The methods \<open>_signingDomain\<close> and
  \<open>_formatVoucher\<close> are \<open>signingDomain\<close> and \<open>formatVoucher\<close>.
\<close>

record ('w, 'e) LazyMinter =
  contractAddress :: string
  signer :: "('w, 'e) Signer"
  minter_types :: TypeSchema
  priv_domain :: "SigningDomain option"

text \<open>The calls a method makes to its collaborators, each with what it returned.\<close>

datatype 'e event =
    ChainIdQuery "'e + int"
  | DigestCall TypedData "'e + bytes"
  | SignCall bytes "'e + bytes"

type_synonym ('w, 'e, 'a) outcome =
  "('e + 'a) \<times> ('w, 'e) LazyMinter \<times> 'w \<times> 'e event list"

subsection \<open>The class\<close>

definition SIGNING_DOMAIN_NAME :: string where
  "SIGNING_DOMAIN_NAME = ''LazyNFT-Voucher''"

definition SIGNING_DOMAIN_VERSION :: string where
  "SIGNING_DOMAIN_VERSION = ''1''"

definition new_LazyMinter :: "string \<Rightarrow> ('w, 'e) Signer \<Rightarrow> ('w, 'e) LazyMinter" where
  "new_LazyMinter addr sg =
     \<lparr>contractAddress = addr,
      signer = sg,
      minter_types =
        [(''EIP712Domain'',
            [\<lparr>field_name = ''name'', field_type = ''string''\<rparr>,
             \<lparr>field_name = ''version'', field_type = ''string''\<rparr>,
             \<lparr>field_name = ''chainId'', field_type = ''uint256''\<rparr>,
             \<lparr>field_name = ''verifyingContract'', field_type = ''address''\<rparr>]),
         (''NFTVoucher'',
            [\<lparr>field_name = ''tokenId'', field_type = ''uint256''\<rparr>,
             \<lparr>field_name = ''minPrice'', field_type = ''uint256''\<rparr>,
             \<lparr>field_name = ''uri'', field_type = ''string''\<rparr>])],
      priv_domain = None\<rparr>"

definition signingDomain ::
  "('w, 'e) LazyMinter \<Rightarrow> 'w \<Rightarrow> ('w, 'e, SigningDomain) outcome" where
  "signingDomain this w =
     (case priv_domain this of
        Some d \<Rightarrow> (Inr d, this, w, [])
      | None \<Rightarrow>
          (case getChainId (signer this) w of
             (Inl e, w') \<Rightarrow> (Inl e, this, w', [ChainIdQuery (Inl e)])
           | (Inr c, w') \<Rightarrow>
               (let d = \<lparr>name = SIGNING_DOMAIN_NAME,
                         version = SIGNING_DOMAIN_VERSION,
                         verifyingContract = contractAddress this,
                         chainId = c\<rparr>
                in (Inr d, this\<lparr>priv_domain := Some d\<rparr>, w', [ChainIdQuery (Inr c)]))))"

definition formatVoucher ::
  "('w, 'e) LazyMinter \<Rightarrow> NFTVoucher \<Rightarrow> 'w \<Rightarrow> ('w, 'e, TypedData) outcome" where
  "formatVoucher this v w =
     (case signingDomain this w of
        (Inl e, this', w', tr) \<Rightarrow> (Inl e, this', w', tr)
      | (Inr d, this', w', tr) \<Rightarrow>
          (Inr \<lparr>domain = d,
                types = minter_types this',
                primaryType = ''NFTVoucher'',
                message = v\<rparr>,
           this', w', tr))"

text \<open>
  \<open>createVoucher(tokenId, uri, minPrice = 0)\<close>: the third argument is \<open>None\<close> when the
  caller leaves it out (or passes \<open>undefined\<close>), and the default is the number 0.
\<close>

definition createVoucher ::
  "(TypedData \<Rightarrow> 'e + bytes) \<Rightarrow> ('w, 'e) LazyMinter \<Rightarrow>
     numeric \<Rightarrow> string \<Rightarrow> numeric option \<Rightarrow> 'w \<Rightarrow> ('w, 'e, CreateVoucherResult) outcome" where
  "createVoucher encodeDigest this tid u mp w =
     (let v = \<lparr>tokenId = tid, uri = u,
               minPrice = (case mp of None \<Rightarrow> Number 0 | Some p \<Rightarrow> p)\<rparr>
      in case formatVoucher this v w of
           (Inl e, this1, w1, tr) \<Rightarrow> (Inl e, this1, w1, tr)
         | (Inr typedData, this1, w1, tr) \<Rightarrow>
             (case encodeDigest typedData of
                Inl e \<Rightarrow> (Inl e, this1, w1, tr @ [DigestCall typedData (Inl e)])
              | Inr dg \<Rightarrow>
                  (case signMessage (signer this1) dg w1 of
                     (Inl e, w2) \<Rightarrow>
                       (Inl e, this1, w2,
                        tr @ [DigestCall typedData (Inr dg), SignCall dg (Inl e)])
                   | (Inr sg, w2) \<Rightarrow>
                       (Inr \<lparr>voucher = v, signature = sg, digest = dg\<rparr>, this1, w2,
                        tr @ [DigestCall typedData (Inr dg), SignCall dg (Inr sg)]))))"

subsection \<open>Sequences of calls\<close>

text \<open>
  The arguments of one call, and a caller that makes the calls of a list one after the
  other on the same instance, keeping each call's result and the calls it made.
\<close>

type_synonym call = "numeric \<times> string \<times> numeric option"

fun createVouchers ::
  "(TypedData \<Rightarrow> 'e + bytes) \<Rightarrow> ('w, 'e) LazyMinter \<Rightarrow> call list \<Rightarrow> 'w \<Rightarrow>
     (('e + CreateVoucherResult) \<times> 'e event list) list \<times> ('w, 'e) LazyMinter \<times> 'w" where
  "createVouchers enc this [] w = ([], this, w)"
| "createVouchers enc this ((tid, u, mp) # cs) w =
     (case createVoucher enc this tid u mp w of
        (r, this1, w1, tr) \<Rightarrow>
          (case createVouchers enc this1 cs w1 of
             (rs, this2, w2) \<Rightarrow> ((r, tr) # rs, this2, w2)))"

text \<open>The voucher of line 64 for the arguments of a call.\<close>

definition callVoucher :: "call \<Rightarrow> NFTVoucher" where
  "callVoucher c =
     (case c of (tid, u, mp) \<Rightarrow>
        \<lparr>tokenId = tid, uri = u, minPrice = (case mp of None \<Rightarrow> Number 0 | Some p \<Rightarrow> p)\<rparr>)"

text \<open>The parts of an outcome, and the calls made during a sequence, call by call.\<close>

definition result_of :: "('w, 'e, 'a) outcome \<Rightarrow> 'e + 'a" where
  "result_of out = fst out"

definition instance_of :: "('w, 'e, 'a) outcome \<Rightarrow> ('w, 'e) LazyMinter" where
  "instance_of out = fst (snd out)"

definition world_of :: "('w, 'e, 'a) outcome \<Rightarrow> 'w" where
  "world_of out = fst (snd (snd out))"

definition trace_of :: "('w, 'e, 'a) outcome \<Rightarrow> 'e event list" where
  "trace_of out = snd (snd (snd out))"

definition traces_of ::
  "(('e + CreateVoucherResult) \<times> 'e event list) list \<times> ('w, 'e) LazyMinter \<times> 'w \<Rightarrow>
     'e event list list" where
  "traces_of run = map snd (fst run)"

text \<open>Kinds of events; \<open>isChainIdAnswer\<close> is a chain-id query that returned a value.\<close>

definition isChainIdAnswer :: "'e event \<Rightarrow> bool" where
  "isChainIdAnswer ev = (case ev of ChainIdQuery (Inr _) \<Rightarrow> True | _ \<Rightarrow> False)"

fun digestCalls :: "'e event list \<Rightarrow> TypedData list" where
  "digestCalls [] = []"
| "digestCalls (DigestCall td _ # evs) = td # digestCalls evs"
| "digestCalls (_ # evs) = digestCalls evs"

text \<open>The digests a trace shows as computed.\<close>

fun digests :: "'e event list \<Rightarrow> bytes list" where
  "digests [] = []"
| "digests (DigestCall _ (Inr dg) # evs) = dg # digests evs"
| "digests (_ # evs) = digests evs"

definition isChainIdQuery :: "'e event \<Rightarrow> bool" where
  "isChainIdQuery ev = (case ev of ChainIdQuery _ \<Rightarrow> True | _ \<Rightarrow> False)"

definition isSignCall :: "'e event \<Rightarrow> bool" where
  "isSignCall ev = (case ev of SignCall _ _ \<Rightarrow> True | _ \<Rightarrow> False)"

definition isDigestCall :: "'e event \<Rightarrow> bool" where
  "isDigestCall ev = (case ev of DigestCall _ _ \<Rightarrow> True | _ \<Rightarrow> False)"

subsection \<open>Stand-ins for the collaborators\<close>

text \<open>
  Signers and a digest function to run the class on. The world of these signers is the
  number of calls the signer has answered.
\<close>

definition steadySigner :: "(nat, string) Signer" where
  "steadySigner =
     \<lparr>getChainId = (\<lambda>w. (Inr 31337, Suc w)),
      signMessage = (\<lambda>d w. (Inr (rev d), Suc w))\<rparr>"

definition flakySigner :: "(nat, string) Signer" where
  "flakySigner =
     \<lparr>getChainId = (\<lambda>w. (if w = 0 then Inl ''network unreachable'' else Inr 31337, Suc w)),
      signMessage = (\<lambda>d w. (Inr (rev d), Suc w))\<rparr>"

definition lockedSigner :: "(nat, string) Signer" where
  "lockedSigner =
     \<lparr>getChainId = (\<lambda>w. (Inr 31337, Suc w)),
      signMessage = (\<lambda>d w. (Inl ''key unavailable'', Suc w))\<rparr>"

text \<open>
  What the stand-in digest function accepts as a uint256: a non-negative whole number.
  The class itself has no such check.
\<close>

definition isUint :: "numeric \<Rightarrow> bool" where
  "isUint n = (case n of Number q \<Rightarrow> 0 \<le> q \<and> of_int \<lfloor>q\<rfloor> = q | BigNumber i \<Rightarrow> 0 \<le> i)"

text \<open>A digest function that refuses the values that are not.\<close>

definition strictDigest :: "TypedData \<Rightarrow> string + bytes" where
  "strictDigest td =
     (if isUint (tokenId (message td)) \<and> isUint (minPrice (message td))
      then Inr [of_nat (length (uri (message td))), 25, 1]
      else Inl ''value out-of-bounds'')"

subsection \<open>The signer the constructor documents\<close>









section \<open>Properties\<close>

subsection \<open>Traces\<close>

lemmas cv_defs =
  createVoucher_def formatVoucher_def signingDomain_def callVoucher_def Let_def

lemmas cv_splits = option.splits sum.splits prod.splits

lemmas ev_defs = isChainIdQuery_def isSignCall_def isDigestCall_def isChainIdAnswer_def

lemmas out_defs = result_of_def instance_of_def world_of_def trace_of_def

lemmas stand_in_defs =
  new_LazyMinter_def steadySigner_def flakySigner_def lockedSigner_def strictDigest_def
  isUint_def SIGNING_DOMAIN_NAME_def SIGNING_DOMAIN_VERSION_def


lemma outcome_parts:
  "out = (result_of out, instance_of out, world_of out, trace_of out)"
  by (simp add: out_defs)

lemma in_digestCalls: "td \<in> set (digestCalls tr) \<longleftrightarrow> (\<exists>res. DigestCall td res \<in> set tr)"
  by (induction tr rule: digestCalls.induct) auto

lemma digestCalls_filter: "digestCalls (filter isDigestCall tr) = digestCalls tr"
  by (induction tr rule: digestCalls.induct) (simp_all add: isDigestCall_def)

lemma in_digests: "dg \<in> set (digests tr) \<longleftrightarrow> (\<exists>td. DigestCall td (Inr dg) \<in> set tr)"
  by (induction tr rule: digests.induct) auto



subsection \<open>One call\<close>

lemma createVoucher_cached_trace:
  assumes "priv_domain this = Some d"
      and "createVoucher enc this tid u mp w = (r, this', w', tr)"
  shows "this' = this \<and> filter isChainIdQuery tr = [] \<and>
         (\<forall>td res. DigestCall td res \<in> set tr \<longrightarrow>
            td = \<lparr>domain = d, types = minter_types this, primaryType = ''NFTVoucher'',
                   message = callVoucher (tid, u, mp)\<rparr> \<and> res = enc td)"
  using assms
  by (auto simp: cv_defs ev_defs split: cv_splits)

lemma createVoucher_digest_cached:
  assumes "createVoucher enc this tid u mp w = (r, this', w', tr)"
      and "DigestCall td res \<in> set tr"
  shows "\<exists>d. priv_domain this' = Some d \<and>
             td = \<lparr>domain = d, types = minter_types this, primaryType = ''NFTVoucher'',
                    message = callVoucher (tid, u, mp)\<rparr> \<and> res = enc td"
  using assms
  by (auto simp: cv_defs split: cv_splits)

lemma createVoucher_types_kept:
  "createVoucher enc this tid u mp w = (r, this', w', tr) \<Longrightarrow>
   minter_types this' = minter_types this"
  by (auto simp: cv_defs split: cv_splits)



subsection \<open>Sequences of calls\<close>

lemma createVouchers_length:
  "createVouchers enc this cs w = (rs, this', w') \<Longrightarrow> length rs = length cs"
proof (induction cs arbitrary: this w rs this' w')
  case Nil
  then show ?case by simp
next
  case (Cons c cs)
  obtain tid u mp where c: "c = (tid, u, mp)" by (cases c) auto
  obtain r this1 w1 tr where one: "createVoucher enc this tid u mp w = (r, this1, w1, tr)"
    by (cases "createVoucher enc this tid u mp w") auto
  obtain rs1 this2 w2 where rest: "createVouchers enc this1 cs w1 = (rs1, this2, w2)"
    by (cases "createVouchers enc this1 cs w1") auto
  from Cons.prems c one rest have "rs = (r, tr) # rs1" by simp
  with Cons.IH [OF rest] show ?case by simp
qed

lemma traces_of_run:
  "createVouchers enc this cs w = (rs, this', w') \<Longrightarrow>
   traces_of (createVouchers enc this cs w) = map snd rs"
  by (simp add: traces_of_def)

lemma createVouchers_cached:
  assumes "priv_domain this = Some d"
      and "createVouchers enc this cs w = (rs, this', w')"
  shows "this' = this \<and>
         (\<forall>(c, r, tr) \<in> set (zip cs rs).
            filter isChainIdQuery tr = [] \<and>
            (\<forall>td res. DigestCall td res \<in> set tr \<longrightarrow>
               td = \<lparr>domain = d, types = minter_types this, primaryType = ''NFTVoucher'',
                      message = callVoucher c\<rparr> \<and> res = enc td))"
  using assms
proof (induction cs arbitrary: w rs this' w')
  case Nil
  then show ?case by simp
next
  case (Cons c cs)
  obtain tid u mp where c: "c = (tid, u, mp)" by (cases c) auto
  obtain r this1 w1 tr where one: "createVoucher enc this tid u mp w = (r, this1, w1, tr)"
    by (cases "createVoucher enc this tid u mp w") auto
  note first = createVoucher_cached_trace [OF Cons.prems(1) one]
  then have same: "this1 = this" by simp
  obtain rs1 this2 w2 where rest: "createVouchers enc this cs w1 = (rs1, this2, w2)"
    by (cases "createVouchers enc this cs w1") auto
  from Cons.prems(2) c one rest same have rs: "rs = (r, tr) # rs1" and t: "this' = this2"
    by simp_all
  from Cons.IH [OF Cons.prems(1) rest] first rs t c show ?case by simp
qed

lemma createVouchers_cached_set:
  assumes "priv_domain this = Some d"
      and "createVouchers enc this cs w = (rs, this', w')"
      and "x \<in> set rs"
  shows "filter isChainIdQuery (snd x) = [] \<and>
         (\<forall>td res. DigestCall td res \<in> set (snd x) \<longrightarrow> domain td = d)"
proof -
  have "length cs = length rs" using createVouchers_length [OF assms(2)] by simp
  from in_set_impl_in_set_zip2 [OF this assms(3)]
  obtain c where "(c, x) \<in> set (zip cs rs)" by blast
  with createVouchers_cached [OF assms(1,2)] show ?thesis
    by (cases x) fastforce
qed

lemma createVouchers_one_domain:
  assumes "createVouchers enc this cs w = (rs, this', w')"
  shows "\<exists>d. \<forall>(c, r, tr) \<in> set (zip cs rs). \<forall>td res. DigestCall td res \<in> set tr \<longrightarrow>
           td = \<lparr>domain = d, types = minter_types this, primaryType = ''NFTVoucher'',
                  message = callVoucher c\<rparr> \<and> res = enc td"
  using assms
proof (induction cs arbitrary: this w rs this' w')
  case Nil
  then show ?case by simp
next
  case (Cons c cs)
  obtain tid u mp where c: "c = (tid, u, mp)" by (cases c) auto
  obtain r this1 w1 tr where one: "createVoucher enc this tid u mp w = (r, this1, w1, tr)"
    by (cases "createVoucher enc this tid u mp w") auto
  obtain rs1 this2 w2 where rest: "createVouchers enc this1 cs w1 = (rs1, this2, w2)"
    by (cases "createVouchers enc this1 cs w1") auto
  from Cons.prems c one rest have rs: "rs = (r, tr) # rs1" by simp
  have ty: "minter_types this1 = minter_types this"
    by (rule createVoucher_types_kept [OF one])
  show ?case
  proof (cases "\<exists>td res. DigestCall td res \<in> set tr")
    case True
    then obtain td0 res0 where "DigestCall td0 res0 \<in> set tr" by blast
    from createVoucher_digest_cached [OF one this]
    obtain d where d: "priv_domain this1 = Some d" by blast
    have first: "\<forall>td res. DigestCall td res \<in> set tr \<longrightarrow>
           td = \<lparr>domain = d, types = minter_types this, primaryType = ''NFTVoucher'',
                  message = callVoucher c\<rparr> \<and> res = enc td"
      using createVoucher_digest_cached [OF one] d c by fastforce
    from createVouchers_cached [OF d rest] first rs ty show ?thesis
      by (intro exI [of _ d]) fastforce
  next
    case False
    from Cons.IH [OF rest] obtain d where
      "\<forall>(c, r, tr) \<in> set (zip cs rs1). \<forall>td res. DigestCall td res \<in> set tr \<longrightarrow>
           td = \<lparr>domain = d, types = minter_types this1, primaryType = ''NFTVoucher'',
                  message = callVoucher c\<rparr> \<and> res = enc td" by blast
    with False rs ty show ?thesis
      by (intro exI [of _ d]) simp
  qed
qed

lemma createVouchers_nth:
  assumes "createVouchers enc this cs w = (rs, this', w')" and "k < length cs"
  shows "(cs ! k, fst (rs ! k), traces_of (createVouchers enc this cs w) ! k) \<in> set (zip cs rs)"
proof -
  have len: "length rs = length cs" by (rule createVouchers_length [OF assms(1)])
  with assms(2) have "traces_of (createVouchers enc this cs w) ! k = snd (rs ! k)"
    by (simp add: traces_of_run [OF assms(1)])
  with assms(2) len show ?thesis
    by (auto simp: in_set_zip intro!: exI [of _ k])
qed


lemma createVouchers_cached_no_query:
  assumes "priv_domain this = Some d"
      and "createVouchers enc this cs w = (rs, this', w')"
  shows "filter isChainIdQuery (concat (map snd rs)) = []"
  using createVouchers_cached_set [OF assms]
  by (auto simp: filter_empty_conv filter_concat)


section \<open>The claims\<close>




text \<open>
  C2, as the code has it. The type of the message is named \<open>NFTVoucher\<close>, not
  \<open>Voucher\<close>: in every call on an instance the constructor made, whatever calls came
  before, the envelope handed to the digest function has primaryType \<open>NFTVoucher\<close> and
  a schema of exactly two types, the four-field \<open>EIP712Domain\<close> and the three-field
  \<open>NFTVoucher\<close> with tokenId, minPrice of type uint256 and uri of type string, in that
  order.
\<close>

theorem envelope_schema:
  assumes "traces_of (createVouchers enc (new_LazyMinter addr sg) cs w) = trs"
      and "td \<in> set (digestCalls (concat trs))"
  shows "primaryType td = ''NFTVoucher'' \<and>
         types td =
           [(''EIP712Domain'',
               [\<lparr>field_name = ''name'', field_type = ''string''\<rparr>,
                \<lparr>field_name = ''version'', field_type = ''string''\<rparr>,
                \<lparr>field_name = ''chainId'', field_type = ''uint256''\<rparr>,
                \<lparr>field_name = ''verifyingContract'', field_type = ''address''\<rparr>]),
            (''NFTVoucher'',
               [\<lparr>field_name = ''tokenId'', field_type = ''uint256''\<rparr>,
                \<lparr>field_name = ''minPrice'', field_type = ''uint256''\<rparr>,
                \<lparr>field_name = ''uri'', field_type = ''string''\<rparr>])]"
proof -
  obtain rs this' w' where run: "createVouchers enc (new_LazyMinter addr sg) cs w = (rs, this', w')"
    by (cases "createVouchers enc (new_LazyMinter addr sg) cs w") auto
  have len: "length cs = length rs" using createVouchers_length [OF run] by simp
  from assms traces_of_run [OF run]
  obtain x res where x: "x \<in> set rs" and ev: "DigestCall td res \<in> set (snd x)"
    by (auto simp: in_digestCalls)
  from in_set_impl_in_set_zip2 [OF len x] obtain c where "(c, x) \<in> set (zip cs rs)" by blast
  with createVouchers_one_domain [OF run] ev
  have "primaryType td = ''NFTVoucher'' \<and>
        types td = minter_types (new_LazyMinter addr sg)"
    by (cases x) fastforce
  then show ?thesis by (simp add: new_LazyMinter_def)
qed

theorem envelope_schema_witness:
  "map primaryType
     (digestCalls (concat (traces_of
        (createVouchers strictDigest (new_LazyMinter ''0xC0FFEE'' steadySigner)
           [(Number 1, ''ipfs://abc'', None), (Number 2, ''ipfs://def'', Some (BigNumber 5))] 0)))) =
     [''NFTVoucher'', ''NFTVoucher''] \<and>
   map (map fst) (map types
     (digestCalls (concat (traces_of
        (createVouchers strictDigest (new_LazyMinter ''0xC0FFEE'' steadySigner)
           [(Number 1, ''ipfs://abc'', None), (Number 2, ''ipfs://def'', Some (BigNumber 5))] 0))))) =
     [[''EIP712Domain'', ''NFTVoucher''], [''EIP712Domain'', ''NFTVoucher'']]"
proof -
  let ?tds = "digestCalls (concat (traces_of
        (createVouchers strictDigest (new_LazyMinter ''0xC0FFEE'' steadySigner)
           [(Number 1, ''ipfs://abc'', None), (Number 2, ''ipfs://def'', Some (BigNumber 5))] 0)))"
  have len: "length ?tds = 2"
    by (simp add: traces_of_def cv_defs stand_in_defs)
  then obtain a b where ab: "?tds = [a, b]"
    by (cases ?tds; cases "tl ?tds") auto
  then have "a \<in> set ?tds" and "b \<in> set ?tds" by simp_all
  from envelope_schema [OF refl this(1)] envelope_schema [OF refl this(2)] ab
  show ?thesis by simp
qed

text \<open>
  Against C2 as the spec words it: on a new instance, the one envelope of a call has
  primaryType \<open>NFTVoucher\<close>, which is not \<open>Voucher\<close>, and the schema has no type of
  that name.
\<close>

theorem primaryType_is_NFTVoucher:
  "map primaryType
     (digestCalls (trace_of
        (createVoucher strictDigest (new_LazyMinter ''0xC0FFEE'' steadySigner)
           (Number 1) ''ipfs://abc'' None 0))) = [''NFTVoucher''] \<and>
   ''NFTVoucher'' \<noteq> ''Voucher'' \<and>
   map (map fst) (map types
     (digestCalls (trace_of
        (createVoucher strictDigest (new_LazyMinter ''0xC0FFEE'' steadySigner)
           (Number 1) ''ipfs://abc'' None 0)))) = [[''EIP712Domain'', ''NFTVoucher'']]"
  by (simp add: out_defs cv_defs stand_in_defs)

text \<open>
  C3, as the code has it. \<open>createVoucher\<close> checks nothing itself, for any tokenId and
  minPrice, negative and fractional ones included. With no domain cached, the first thing
  a call does is the chain-id query. Unless that query fails, the call hands the voucher
  to the digest function, once, with the values as they were passed. A call fails only
  with the error of the chain-id query, of the digest function or of the signer. When the
  digest function refuses the envelope, the call fails with that error and the signer is
  not asked to sign.
\<close>

theorem createVoucher_no_validation:
  assumes "createVoucher enc this tid u mp w = (r, this', w', tr)"
  shows "(priv_domain this = None \<longrightarrow> (\<exists>q tr'. tr = ChainIdQuery q # tr')) \<and>
         ((\<forall>e. ChainIdQuery (Inl e) \<notin> set tr) \<longrightarrow>
            (\<exists>td. filter isDigestCall tr = [DigestCall td (enc td)] \<and>
                  message td = callVoucher (tid, u, mp))) \<and>
         (\<forall>td res. DigestCall td res \<in> set tr \<longrightarrow>
            message td = callVoucher (tid, u, mp) \<and> res = enc td) \<and>
         (\<forall>e. r = Inl e \<longrightarrow>
            ChainIdQuery (Inl e) \<in> set tr \<or> (\<exists>td. DigestCall td (Inl e) \<in> set tr) \<or>
            (\<exists>dg. SignCall dg (Inl e) \<in> set tr)) \<and>
         (\<forall>td e. DigestCall td (Inl e) \<in> set tr \<longrightarrow> r = Inl e \<and> filter isSignCall tr = [])"
  using assms
  by (auto simp: cv_defs ev_defs split: cv_splits)

theorem createVoucher_no_validation_witness:
  "priv_domain (new_LazyMinter ''0xC0FFEE'' steadySigner) = None \<and>
   map message
     (digestCalls (trace_of
        (createVoucher strictDigest (new_LazyMinter ''0xC0FFEE'' steadySigner)
           (Number (- 1)) ''ipfs://abc'' None 0))) =
     [\<lparr>tokenId = Number (- 1), uri = ''ipfs://abc'', minPrice = Number 0\<rparr>] \<and>
   result_of (createVoucher strictDigest (new_LazyMinter ''0xC0FFEE'' steadySigner)
                (Number (- 1)) ''ipfs://abc'' None 0) = Inl ''value out-of-bounds'' \<and>
   filter isSignCall
     (trace_of (createVoucher strictDigest (new_LazyMinter ''0xC0FFEE'' steadySigner)
                  (Number (- 1)) ''ipfs://abc'' None 0)) = [] \<and>
   map message
     (digestCalls (trace_of
        (createVoucher strictDigest (new_LazyMinter ''0xC0FFEE'' steadySigner)
           (BigNumber 7) ''ipfs://def'' (Some (Number (3 / 2))) 0))) =
     [\<lparr>tokenId = BigNumber 7, uri = ''ipfs://def'', minPrice = Number (3 / 2)\<rparr>] \<and>
   result_of (createVoucher strictDigest (new_LazyMinter ''0xC0FFEE'' steadySigner)
                (BigNumber 7) ''ipfs://def'' (Some (Number (3 / 2))) 0) =
     Inl ''value out-of-bounds''"
proof -
  let ?m = "new_LazyMinter ''0xC0FFEE'' steadySigner"
  have none: "priv_domain ?m = None"
    by (simp add: new_LazyMinter_def)
  have answered: "\<forall>e. ChainIdQuery (Inl e) \<notin>
      set (trace_of (createVoucher strictDigest ?m tid u mp 0))" for tid u mp
    by (simp add: out_defs cv_defs new_LazyMinter_def steadySigner_def split: cv_splits)
  have refused: "\<not> isUint (Number (- 1))" "\<not> isUint (Number (3 / 2))"
    by code_simp+
  have gen:
    "map message (digestCalls (trace_of (createVoucher strictDigest ?m tid u mp 0))) =
       [callVoucher (tid, u, mp)] \<and>
     result_of (createVoucher strictDigest ?m tid u mp 0) = Inl ''value out-of-bounds'' \<and>
     filter isSignCall (trace_of (createVoucher strictDigest ?m tid u mp 0)) = []"
    if bad: "\<not> isUint (tokenId (callVoucher (tid, u, mp))) \<or>
             \<not> isUint (minPrice (callVoucher (tid, u, mp)))"
      for tid u mp
  proof -
    let ?out = "createVoucher strictDigest ?m tid u mp 0"
    note nv = createVoucher_no_validation [OF outcome_parts [of ?out]]
    from nv answered [of tid u mp] obtain td where
      f: "filter isDigestCall (trace_of ?out) = [DigestCall td (strictDigest td)]"
      and m: "message td = callVoucher (tid, u, mp)" by blast
    from bad m have "strictDigest td = Inl ''value out-of-bounds''"
      by (auto simp: strictDigest_def)
    with f have "DigestCall td (Inl ''value out-of-bounds'') \<in> set (filter isDigestCall (trace_of ?out))"
      by simp
    then have "DigestCall td (Inl ''value out-of-bounds'') \<in> set (trace_of ?out)" by simp
    with nv have "result_of ?out = Inl ''value out-of-bounds''"
      and "filter isSignCall (trace_of ?out) = []" by blast+
    moreover from f have "digestCalls (trace_of ?out) = [td]"
      using digestCalls_filter [of "trace_of ?out"] by simp
    ultimately show ?thesis using m by simp
  qed
  from refused have
    "\<not> isUint (tokenId (callVoucher (Number (- 1), ''ipfs://abc'', None))) \<or>
     \<not> isUint (minPrice (callVoucher (Number (- 1), ''ipfs://abc'', None)))"
    "\<not> isUint (tokenId (callVoucher (BigNumber 7, ''ipfs://def'', Some (Number (3 / 2))))) \<or>
     \<not> isUint (minPrice (callVoucher (BigNumber 7, ''ipfs://def'', Some (Number (3 / 2)))))"
    by (simp_all add: callVoucher_def)
  from gen [OF this(1)] gen [OF this(2)] none show ?thesis
    by (simp add: callVoucher_def)
qed

text \<open>
  Against C3 as the spec words it: \<open>createVoucher(-1, "ipfs://abc")\<close> on a new
  instance, with a digest function that refuses negative numbers, has queried the chain
  id and cached the domain by the time the call fails, and the error is the digest
  function's.
\<close>

theorem negative_tokenId_reaches_chainId_query:
  "filter isChainIdQuery
     (trace_of (createVoucher strictDigest (new_LazyMinter ''0xC0FFEE'' steadySigner)
                  (Number (- 1)) ''ipfs://abc'' None 0)) = [ChainIdQuery (Inr 31337)] \<and>
   priv_domain
     (instance_of (createVoucher strictDigest (new_LazyMinter ''0xC0FFEE'' steadySigner)
                     (Number (- 1)) ''ipfs://abc'' None 0)) =
     Some \<lparr>name = ''LazyNFT-Voucher'', version = ''1'',
           verifyingContract = ''0xC0FFEE'', chainId = 31337\<rparr> \<and>
   world_of (createVoucher strictDigest (new_LazyMinter ''0xC0FFEE'' steadySigner)
               (Number (- 1)) ''ipfs://abc'' None 0) = 1 \<and>
   result_of (createVoucher strictDigest (new_LazyMinter ''0xC0FFEE'' steadySigner)
                (Number (- 1)) ''ipfs://abc'' None 0) = Inl ''value out-of-bounds''"
  by (simp add: out_defs cv_defs ev_defs stand_in_defs)

text \<open>
  C4. When no domain is cached and the chain-id query fails, the call fails with the
  query's error as it is, makes no other call (no digest, no signature), and leaves the
  instance as it was, the cache still empty; any later call on the instance, in whatever
  world, starts with the chain-id query again.
\<close>

theorem createVoucher_chainId_failure:
  assumes "priv_domain this = None"
      and "getChainId (signer this) w = (Inl e, w1)"
  shows "createVoucher enc this tid u mp w = (Inl e, this, w1, [ChainIdQuery (Inl e)]) \<and>
         (\<forall>tid' u' mp' w2. \<exists>tr2.
            trace_of (createVoucher enc this tid' u' mp' w2) =
              ChainIdQuery (fst (getChainId (signer this) w2)) # tr2)"
  using assms
  by (auto simp: cv_defs trace_of_def split: cv_splits)

theorem createVoucher_chainId_failure_witness:
  "priv_domain (new_LazyMinter ''0xC0FFEE'' flakySigner) = None \<and>
   getChainId (signer (new_LazyMinter ''0xC0FFEE'' flakySigner)) 0 =
     (Inl ''network unreachable'', 1) \<and>
   createVoucher strictDigest (new_LazyMinter ''0xC0FFEE'' flakySigner)
     (Number 1) ''ipfs://abc'' None 0 =
     (Inl ''network unreachable'', new_LazyMinter ''0xC0FFEE'' flakySigner, 1,
      [ChainIdQuery (Inl ''network unreachable'')]) \<and>
   hd (trace_of (createVoucher strictDigest (new_LazyMinter ''0xC0FFEE'' flakySigner)
                   (Number 1) ''ipfs://abc'' None 1)) = ChainIdQuery (Inr 31337)"
proof -
  have none: "priv_domain (new_LazyMinter ''0xC0FFEE'' flakySigner) = None"
    by (simp add: new_LazyMinter_def)
  have q: "getChainId (signer (new_LazyMinter ''0xC0FFEE'' flakySigner)) 0 =
             (Inl ''network unreachable'', 1)"
    by (simp add: new_LazyMinter_def flakySigner_def)
  have q1: "fst (getChainId (signer (new_LazyMinter ''0xC0FFEE'' flakySigner)) 1) = Inr 31337"
    by (simp add: new_LazyMinter_def flakySigner_def)
  note f = createVoucher_chainId_failure [OF none q, of strictDigest "Number 1" "''ipfs://abc''" None]
  from f obtain tr2 where
    "trace_of (createVoucher strictDigest (new_LazyMinter ''0xC0FFEE'' flakySigner)
                 (Number 1) ''ipfs://abc'' None 1) =
       ChainIdQuery (fst (getChainId (signer (new_LazyMinter ''0xC0FFEE'' flakySigner)) 1)) # tr2"
    by blast
  with q1 have "hd (trace_of (createVoucher strictDigest (new_LazyMinter ''0xC0FFEE'' flakySigner)
                   (Number 1) ''ipfs://abc'' None 1)) = ChainIdQuery (Inr 31337)" by simp
  with none q f show ?thesis by blast
qed




text \<open>
  C6. On one instance, whatever calls are made before, between and after them, two calls
  with the same tokenId, uri and minPrice that both compute a digest hand the same
  envelope to the digest function and get the same digest.
\<close>

theorem digest_deterministic:
  assumes "traces_of (createVouchers enc this cs w) = trs"
      and "i < length cs" and "j < length cs" and "cs ! i = cs ! j"
      and "di \<in> set (digests (trs ! i))"
      and "dj \<in> set (digests (trs ! j))"
  shows "di = dj"
proof -
  obtain rs this' w' where run: "createVouchers enc this cs w = (rs, this', w')"
    by (cases "createVouchers enc this cs w") auto
  from createVouchers_one_domain [OF run] obtain d where
    d: "\<forall>(c, r, tr) \<in> set (zip cs rs). \<forall>td res. DigestCall td res \<in> set tr \<longrightarrow>
           td = \<lparr>domain = d, types = minter_types this, primaryType = ''NFTVoucher'',
                  message = callVoucher c\<rparr> \<and> res = enc td" by blast
  from assms(5) obtain tdi where "DigestCall tdi (Inr di) \<in> set (trs ! i)"
    by (auto simp: in_digests)
  with d createVouchers_nth [OF run assms(2)] assms(1)
  have i: "tdi = \<lparr>domain = d, types = minter_types this, primaryType = ''NFTVoucher'',
                  message = callVoucher (cs ! i)\<rparr> \<and> Inr di = enc tdi" by fast
  from assms(6) obtain tdj where "DigestCall tdj (Inr dj) \<in> set (trs ! j)"
    by (auto simp: in_digests)
  with d createVouchers_nth [OF run assms(3)] assms(1)
  have j: "tdj = \<lparr>domain = d, types = minter_types this, primaryType = ''NFTVoucher'',
                  message = callVoucher (cs ! j)\<rparr> \<and> Inr dj = enc tdj" by fast
  from i j assms(4) have "tdi = tdj" by simp
  with i j show ?thesis by (metis sum.inject(2))
qed

theorem digest_deterministic_witness:
  "digests (traces_of
      (createVouchers strictDigest (new_LazyMinter ''0xC0FFEE'' steadySigner)
         [(Number 1, ''ipfs://abc'', None), (Number 1, ''ipfs://abc'', None)] 0) ! 0) =
     [[10, 25, 1]] \<and>
   digests (traces_of
      (createVouchers strictDigest (new_LazyMinter ''0xC0FFEE'' steadySigner)
         [(Number 1, ''ipfs://abc'', None), (Number 1, ''ipfs://abc'', None)] 0) ! 1) =
   digests (traces_of
      (createVouchers strictDigest (new_LazyMinter ''0xC0FFEE'' steadySigner)
         [(Number 1, ''ipfs://abc'', None), (Number 1, ''ipfs://abc'', None)] 0) ! 0)"
proof -
  let ?cs = "[(Number 1, ''ipfs://abc'', None), (Number 1, ''ipfs://abc'', None)] :: call list"
  let ?trs = "traces_of
      (createVouchers strictDigest (new_LazyMinter ''0xC0FFEE'' steadySigner) ?cs 0)"
  have d0: "digests (?trs ! 0) = [[10, 25, 1]]"
    by (simp add: traces_of_def cv_defs stand_in_defs)
  have "length (digests (?trs ! 1)) = 1"
    by (simp add: traces_of_def cv_defs stand_in_defs)
  then obtain dj where d1: "digests (?trs ! 1) = [dj]"
    by (cases "digests (?trs ! 1)") auto
  have m0: "[10, 25, 1] \<in> set (digests (?trs ! 0))" unfolding d0 by simp
  have m1: "dj \<in> set (digests (?trs ! 1))" unfolding d1 by simp
  have "[10, 25, 1] = dj"
    by (rule digest_deterministic [OF refl [of ?trs] _ _ _ m0 m1]) simp_all
  with d0 d1 show ?thesis by simp
qed

text \<open>
  C7. On the first call on a new instance, when the chain-id query returns \<open>c\<close>, the
  domain cached afterwards is name \<open>LazyNFT-Voucher\<close>, version \<open>1\<close>, the address the
  constructor was given and chain id \<open>c\<close>, and it is the domain of the envelope the call
  hands to the digest function.
\<close>

theorem createVoucher_first_call_domain:
  assumes "getChainId sg w = (Inr c, w1)"
      and "createVoucher enc (new_LazyMinter addr sg) tid u mp w = (r, this', w', tr)"
  shows "priv_domain this' =
           Some \<lparr>name = ''LazyNFT-Voucher'', version = ''1'',
                 verifyingContract = addr, chainId = c\<rparr> \<and>
         map domain (digestCalls tr) =
           [\<lparr>name = ''LazyNFT-Voucher'', version = ''1'',
             verifyingContract = addr, chainId = c\<rparr>] \<and>
         filter isChainIdQuery tr = [ChainIdQuery (Inr c)]"
  using assms
  by (auto simp: cv_defs ev_defs new_LazyMinter_def SIGNING_DOMAIN_NAME_def
        SIGNING_DOMAIN_VERSION_def split: cv_splits)

theorem createVoucher_first_call_domain_witness:
  "getChainId steadySigner 0 = (Inr 31337, 1) \<and>
   priv_domain
     (instance_of (createVoucher strictDigest (new_LazyMinter ''0xC0FFEE'' steadySigner)
                     (Number 1) ''ipfs://abc'' None 0)) =
     Some \<lparr>name = ''LazyNFT-Voucher'', version = ''1'',
           verifyingContract = ''0xC0FFEE'', chainId = 31337\<rparr>"
proof -
  have q: "getChainId steadySigner 0 = (Inr 31337, 1)"
    by (simp add: steadySigner_def)
  from createVoucher_first_call_domain [OF q outcome_parts] q show ?thesis by blast
qed

text \<open>
  C8. Leaving \<open>minPrice\<close> out is the same call as passing the number 0: the same
  result (voucher, digest, signature), the same instance and world afterwards, the same
  envelope handed to the digest function.
\<close>

theorem createVoucher_default_minPrice:
  "createVoucher enc this tid u None w = createVoucher enc this tid u (Some (Number 0)) w"
  by (simp add: createVoucher_def)

text \<open>
  C9. A call, successful or not, changes nothing of the instance but the cached domain:
  the contract address, the signer and the type schema afterwards are the ones before,
  and so is every other field; and a domain that is cached is never replaced.
\<close>

theorem createVoucher_frame:
  assumes "createVoucher enc this tid u mp w = (r, this', w', tr)"
  shows "contractAddress this' = contractAddress this \<and>
         signer this' = signer this \<and>
         minter_types this' = minter_types this \<and>
         this' = this\<lparr>priv_domain := priv_domain this'\<rparr> \<and>
         (\<forall>d. priv_domain this = Some d \<longrightarrow> this' = this)"
  using assms
  by (auto simp: cv_defs split: cv_splits)

theorem createVoucher_frame_witness:
  "result_of (createVoucher strictDigest (new_LazyMinter ''0xC0FFEE'' steadySigner)
                (Number 1) ''ipfs://abc'' (Some (BigNumber 1000)) 0) =
     Inr \<lparr>voucher = \<lparr>tokenId = Number 1, uri = ''ipfs://abc'', minPrice = BigNumber 1000\<rparr>,
          signature = [1, 25, 10], digest = [10, 25, 1]\<rparr> \<and>
   contractAddress
     (instance_of (createVoucher strictDigest (new_LazyMinter ''0xC0FFEE'' steadySigner)
                     (Number 1) ''ipfs://abc'' (Some (BigNumber 1000)) 0)) = ''0xC0FFEE'' \<and>
   signer
     (instance_of (createVoucher strictDigest (new_LazyMinter ''0xC0FFEE'' steadySigner)
                     (Number 1) ''ipfs://abc'' (Some (BigNumber 1000)) 0)) = steadySigner \<and>
   minter_types
     (instance_of (createVoucher strictDigest (new_LazyMinter ''0xC0FFEE'' steadySigner)
                     (Number 1) ''ipfs://abc'' (Some (BigNumber 1000)) 0)) =
     minter_types (new_LazyMinter ''0xC0FFEE'' steadySigner)"
proof -
  let ?out = "createVoucher strictDigest (new_LazyMinter ''0xC0FFEE'' steadySigner)
                (Number 1) ''ipfs://abc'' (Some (BigNumber 1000)) 0"
  have r: "result_of ?out =
     Inr \<lparr>voucher = \<lparr>tokenId = Number 1, uri = ''ipfs://abc'', minPrice = BigNumber 1000\<rparr>,
          signature = [1, 25, 10], digest = [10, 25, 1]\<rparr>"
    by (simp add: out_defs cv_defs stand_in_defs)
  from createVoucher_frame [OF outcome_parts [of ?out]] r show ?thesis
    by (simp add: new_LazyMinter_def)
qed

text \<open>
  C10. A call whose signing step fails returns that error and no result, and still leaves
  a domain cached (when none was cached before, the one built from the chain id the call
  queried). Every later sequence of calls on the instance makes no chain-id query, leaves
  the instance as it is and hands that cached domain to the digest function.
\<close>

theorem signing_failure_keeps_domain:
  assumes "createVoucher enc this tid u mp w = (r, this', w', tr)"
      and "SignCall dg (Inl e) \<in> set tr"
  shows "r = Inl e \<and>
         (\<exists>d. priv_domain this' = Some d \<and>
            (priv_domain this = None \<longrightarrow>
               filter isChainIdQuery tr = [ChainIdQuery (Inr (chainId d))] \<and>
               d = \<lparr>name = SIGNING_DOMAIN_NAME, version = SIGNING_DOMAIN_VERSION,
                     verifyingContract = contractAddress this, chainId = chainId d\<rparr>) \<and>
            (\<forall>cs w3.
               filter isChainIdQuery (concat (traces_of (createVouchers enc this' cs w3))) = [] \<and>
               fst (snd (createVouchers enc this' cs w3)) = this' \<and>
               (\<forall>td \<in> set (digestCalls (concat (traces_of (createVouchers enc this' cs w3)))).
                  domain td = d)))"
proof -
  from assms have r: "r = Inl e"
    by (auto simp: cv_defs split: cv_splits)
  from assms obtain d where d: "priv_domain this' = Some d"
    by (auto simp: cv_defs split: cv_splits)
  from assms d have first:
    "priv_domain this = None \<longrightarrow>
       filter isChainIdQuery tr = [ChainIdQuery (Inr (chainId d))] \<and>
       d = \<lparr>name = SIGNING_DOMAIN_NAME, version = SIGNING_DOMAIN_VERSION,
             verifyingContract = contractAddress this, chainId = chainId d\<rparr>"
    by (auto simp: cv_defs ev_defs split: cv_splits)
  have later:
    "filter isChainIdQuery (concat (traces_of (createVouchers enc this' cs w3))) = [] \<and>
     fst (snd (createVouchers enc this' cs w3)) = this' \<and>
     (\<forall>td \<in> set (digestCalls (concat (traces_of (createVouchers enc this' cs w3)))).
        domain td = d)" for cs w3
  proof -
    obtain rs this3 w4 where run: "createVouchers enc this' cs w3 = (rs, this3, w4)"
      by (cases "createVouchers enc this' cs w3") auto
    have "filter isChainIdQuery (concat (map snd rs)) = []"
      by (rule createVouchers_cached_no_query [OF d run])
    moreover have "this3 = this'"
      using createVouchers_cached [OF d run] by simp
    moreover have "\<forall>td \<in> set (digestCalls (concat (map snd rs))). domain td = d"
      using createVouchers_cached_set [OF d run] by (fastforce simp: in_digestCalls)
    ultimately show ?thesis
      using run by (simp add: traces_of_def)
  qed
  have all:
    "\<forall>cs w3.
        filter isChainIdQuery (concat (traces_of (createVouchers enc this' cs w3))) = [] \<and>
        fst (snd (createVouchers enc this' cs w3)) = this' \<and>
        (\<forall>td \<in> set (digestCalls (concat (traces_of (createVouchers enc this' cs w3)))).
           domain td = d)"
    by (intro allI) (rule later)
  from r d first all show ?thesis by (intro conjI exI [of _ d])
qed

theorem signing_failure_keeps_domain_witness:
  "SignCall [10, 25, 1] (Inl ''key unavailable'') \<in>
     set (trace_of (createVoucher strictDigest (new_LazyMinter ''0xC0FFEE'' lockedSigner)
                      (Number 1) ''ipfs://abc'' None 0)) \<and>
   result_of (createVoucher strictDigest (new_LazyMinter ''0xC0FFEE'' lockedSigner)
                (Number 1) ''ipfs://abc'' None 0) = Inl ''key unavailable'' \<and>
   priv_domain
     (instance_of (createVoucher strictDigest (new_LazyMinter ''0xC0FFEE'' lockedSigner)
                     (Number 1) ''ipfs://abc'' None 0)) =
     Some \<lparr>name = ''LazyNFT-Voucher'', version = ''1'',
           verifyingContract = ''0xC0FFEE'', chainId = 31337\<rparr> \<and>
   filter isChainIdQuery (concat (traces_of
     (createVouchers strictDigest
        (instance_of (createVoucher strictDigest (new_LazyMinter ''0xC0FFEE'' lockedSigner)
                        (Number 1) ''ipfs://abc'' None 0))
        [(Number 1, ''ipfs://abc'', None), (Number 2, ''ipfs://def'', None)] 2))) = []"
proof -
  let ?out = "createVoucher strictDigest (new_LazyMinter ''0xC0FFEE'' lockedSigner)
                (Number 1) ''ipfs://abc'' None 0"
  have ev: "SignCall [10, 25, 1] (Inl ''key unavailable'') \<in> set (trace_of ?out)"
    by (simp add: out_defs cv_defs stand_in_defs)
  have dom: "priv_domain (instance_of ?out) =
     Some \<lparr>name = ''LazyNFT-Voucher'', version = ''1'',
           verifyingContract = ''0xC0FFEE'', chainId = 31337\<rparr>"
    by (simp add: out_defs cv_defs stand_in_defs)
  from signing_failure_keeps_domain [OF outcome_parts [of ?out] ev] ev dom
  show ?thesis by blast
qed

end
